theory Spec2Isabelle
  imports Main
begin

section \<open>The Redis example service adapter\<close>

text \<open>
  A shallow embedding of the two files of package \<open>adapter\<close>:
  \<open>redis_manifest_generator.go\<close> (manifest generation and upgrade-path validation) and
  \<open>redis_binding.go\<close> (credential binding).

  Conventions of the embedding.
  \<^item> A Go function returning \<open>(T, error)\<close> returns \<open>failure + T\<close>. \<open>Inl (Err msg)\<close> is a
    returned error with message \<open>msg\<close>; \<open>Inl (Panic k)\<close> is a run-time panic of kind \<open>k\<close>,
    which unwinds the whole call instead of returning.
  \<^item> A Go map is an association list. The order of the list is the order in which this
    run's \<open>range\<close> loop visits the entries; Go leaves that order unspecified, so the same
    map may be presented by any permutation of its entries. Lookup is \<open>map_of\<close>; the keys
    of a real map are distinct.
  \<^item> A value of type \<open>interface{}\<close> is a \<open>val\<close>, tagged with its dynamic type.
  \<^item> \<open>int\<close> is the 64-bit Go \<open>int\<close>; values are HOL integers and the bounds are written
    out where the code depends on them (\<open>strconv.Atoi\<close>, conversion from \<open>float64\<close>).
  \<^item> What is written to \<open>StderrLogger\<close> is returned as a list of lines next to the result.
\<close>

subsection \<open>Results, panics and dynamic values\<close>

datatype panic = TypeAssertionFailed | IndexOutOfRange

datatype failure = Err string | Panic panic

type_synonym 'a result = "failure + 'a"

text \<open>
  A finite \<open>float64\<close> is \<open>mantissa * 2 ^ exponent\<close>. Every finite double has this form;
  the JSON decoder that fills the arbitrary parameters produces no other.
\<close>

datatype float64 = Float64 (mantissa: int) (exponent: int)

datatype val =
    VNil
  | VBool bool
  | VInt int
  | VFloat64 float64
  | VString string
  | VMap "(val \<times> val) list"
  | VNilMap
  | VStringMap "(string \<times> val) list"
  | VSlice "val list"

text \<open>
  \<open>VMap\<close> is a non-nil \<open>map[interface{}]interface{}\<close> and \<open>VNilMap\<close> the nil map of
  that type, stored in an \<open>interface{}\<close> that is itself not nil; \<open>VStringMap\<close> is a
  \<open>map[string]interface{}\<close>.
\<close>

definition MaxInt :: int where
  "MaxInt = 2 ^ 63 - 1"

definition MinInt :: int where
  "MinInt = - (2 ^ 63)"

text \<open>
  \<open>int(f)\<close> for a \<open>float64\<close> \<open>f\<close>: the fraction is discarded (truncation towards zero).
  When the truncated value does not fit \<open>int\<close> the language leaves the result to the
  implementation; \<open>overflow\<close> stands for what the platform yields there.
\<close>

definition truncate_float64 :: "float64 \<Rightarrow> int" where
  "truncate_float64 f =
     (let m = mantissa f; e = exponent f in
      if 0 \<le> e then m * 2 ^ nat e
      else if 0 \<le> m then m div 2 ^ nat (- e)
      else - ((- m) div 2 ^ nat (- e)))"

definition int_of_float64 :: "(float64 \<Rightarrow> int) \<Rightarrow> float64 \<Rightarrow> int" where
  "int_of_float64 overflow f =
     (let t = truncate_float64 f in
      if MinInt \<le> t \<and> t \<le> MaxInt then t else overflow f)"

subsection \<open>Strings: \<open>strings.Join\<close>, \<open>%d\<close>, \<open>strconv.Atoi\<close>\<close>

fun Join :: "string list \<Rightarrow> string \<Rightarrow> string" where
  "Join [] sep = []"
| "Join [x] sep = x"
| "Join (x # y # ys) sep = x @ sep @ Join (y # ys) sep"

definition digit_char :: "nat \<Rightarrow> char" where
  "digit_char d = ''0123456789'' ! d"

fun decimal :: "nat \<Rightarrow> string" where
  "decimal n = (if n < 10 then [digit_char n] else decimal (n div 10) @ [digit_char (n mod 10)])"

declare decimal.simps [simp del]

definition isDigit :: "char \<Rightarrow> bool" where
  "isDigit c = (let n = (of_char c :: nat) in 48 \<le> n \<and> n \<le> 57)"

definition digit_value :: "char \<Rightarrow> nat" where
  "digit_value c = of_char c - 48"

text \<open>The value of a string of decimal digits, most significant digit first.\<close>

definition digits_value :: "string \<Rightarrow> nat" where
  "digits_value s = foldl (\<lambda>acc c. 10 * acc + digit_value c) 0 s"

text \<open>
  \<open>strconv.Atoi\<close> on a non-empty string of decimal digits (the only strings the version
  parser passes to it): the value, or a range error when it exceeds the largest \<open>int\<close>.
\<close>

definition Atoi :: "string \<Rightarrow> int result" where
  "Atoi s =
     (if int (digits_value s) \<le> MaxInt then Inr (int (digits_value s))
      else Inl (Err (''strconv.Atoi: parsing '' @ [CHR 0x22] @ s @ [CHR 0x22] @ '': value out of range'')))"

subsection \<open>The data of the SDK that the adapter reads and writes\<close>

record ServiceRelease =
  Name :: string
  Version :: string
  Jobs :: "string list"

record ServiceStemcell =
  OS :: string
  StemcellVersion :: string

record ServiceDeployment =
  DeploymentName :: string
  Releases :: "ServiceRelease list"
  Stemcell :: ServiceStemcell

record PlanInstanceGroup =
  IGName :: string
  VMType :: string
  VMExtensions :: "string list"
  PersistentDiskType :: string
  Instances :: int
  Networks :: "string list"
  AZs :: "string list"

record PlanUpdate =
  Canaries :: int
  MaxInFlight :: val
  CanaryWatchTime :: string
  UpdateWatchTime :: string
  Serial :: "bool option"

record Plan =
  Properties :: "(string \<times> val) list"
  InstanceGroups :: "PlanInstanceGroup list"
  Update :: "PlanUpdate option"

text \<open>
  Of the manifest types of package \<open>bosh\<close> only the fields that the adapter sets or reads
  are kept; every other field keeps its zero value in all that follows.

  \<open>RequestParameters\<close> at its boundary: what \<open>ArbitraryParams()\<close>, \<open>ArbitraryContext()\<close>
  and \<open>Platform()\<close> return.
\<close>

record RequestParameters =
  ArbitraryParams :: "(string \<times> val) list"
  ArbitraryContext :: "(string \<times> val) list"
  Platform :: string

record BoshRelease =
  ReleaseName :: string
  ReleaseVersion :: string

record BoshStemcell =
  Alias :: string
  BoshOS :: string
  BoshStemcellVersion :: string

record BoshJob =
  JobName :: string
  JobRelease :: string

record BoshNetwork =
  NetworkName :: string

record BoshInstanceGroup =
  BoshIGName :: string
  BoshInstances :: int
  BoshJobs :: "BoshJob list"
  BoshVMType :: string
  BoshVMExtensions :: "string list"
  BoshPersistentDiskType :: string
  BoshIGStemcell :: string
  BoshNetworks :: "BoshNetwork list"
  BoshAZs :: "string list"
  BoshIGProperties :: "(string \<times> val) list"

record BoshUpdate =
  BoshCanaries :: int
  BoshCanaryWatchTime :: string
  BoshUpdateWatchTime :: string
  BoshMaxInFlight :: val
  BoshSerial :: "bool option"

record BoshManifest =
  ManifestName :: string
  ManifestReleases :: "BoshRelease list"
  ManifestStemcells :: "BoshStemcell list"
  ManifestInstanceGroups :: "BoshInstanceGroup list"
  ManifestUpdate :: BoshUpdate
  ManifestProperties :: "(string \<times> val) list"

subsection \<open>Constants\<close>

definition RedisServerJobName :: string where
  "RedisServerJobName = ''redis-server''"

definition RedisServerPersistencePropertyKey :: string where
  "RedisServerPersistencePropertyKey = ''persistence''"

definition RedisServerPort :: int where
  "RedisServerPort = 6379"

subsection \<open>Arbitrary parameters\<close>

text \<open>The \<open>range\<close> loop visits the entries in the order of the list.\<close>

fun findIllegalArbitraryParams :: "(string \<times> val) list \<Rightarrow> string list" where
  "findIllegalArbitraryParams [] = []"
| "findIllegalArbitraryParams ((k, v) # rest) =
     (if k \<noteq> ''maxclients'' then k # findIllegalArbitraryParams rest
      else findIllegalArbitraryParams rest)"

subsection \<open>Release resolution\<close>

text \<open>
  The inner loop of \<open>findReleaseForJob\<close>: one copy of the release is appended for every
  entry of its job list that equals the required job.
\<close>

fun appendForJobs :: "string \<Rightarrow> ServiceRelease \<Rightarrow> string list \<Rightarrow> ServiceRelease list \<Rightarrow> ServiceRelease list" where
  "appendForJobs requiredJob release [] acc = acc"
| "appendForJobs requiredJob release (providedJob # jobs) acc =
     (if providedJob = requiredJob then appendForJobs requiredJob release jobs (acc @ [release])
      else appendForJobs requiredJob release jobs acc)"

fun releasesThatProvide :: "string \<Rightarrow> ServiceRelease list \<Rightarrow> ServiceRelease list \<Rightarrow> ServiceRelease list" where
  "releasesThatProvide requiredJob [] acc = acc"
| "releasesThatProvide requiredJob (release # releases) acc =
     releasesThatProvide requiredJob releases (appendForJobs requiredJob release (Jobs release) acc)"

definition findReleaseForJob :: "string \<Rightarrow> ServiceRelease list \<Rightarrow> ServiceRelease result" where
  "findReleaseForJob requiredJob releases =
     (let releasesThatProvideRequiredJob = releasesThatProvide requiredJob releases [] in
      if length releasesThatProvideRequiredJob = 0 then
        Inl (Err (''no release provided for job '' @ requiredJob))
      else if length releasesThatProvideRequiredJob > 1 then
        Inl (Err (''job '' @ requiredJob @ '' defined in multiple releases: '' @
                  Join (map Name releasesThatProvideRequiredJob) '', ''))
      else Inr (hd releasesThatProvideRequiredJob))"

definition gatherJobs :: "ServiceRelease list \<Rightarrow> BoshJob list result" where
  "gatherJobs releases =
     (case findReleaseForJob RedisServerJobName releases of
        Inl e \<Rightarrow> Inl e
      | Inr release \<Rightarrow> Inr ([] @ [\<lparr>JobName = RedisServerJobName, JobRelease = Name release\<rparr>]))"

subsection \<open>Release versions\<close>

text \<open>
  The regular expression \<^verbatim>\<open>^(\d+)(?:\.(\d+))?(?:\+dev\.(\d+))?$\<close>, read from left to
  right. \<^verbatim>\<open>\d\<close> is an ASCII digit and \<^verbatim>\<open>$\<close> is the end of the text. Each optional group
  is taken when it matches; skipping a group that could match, or giving back digits,
  leaves \<open>.\<close>, \<open>+\<close> or a digit in front of what must then be the end of the text, so the
  greedy reading is the only one. The result holds the submatches 1 to 3, a group that
  did not take part being the empty string.
\<close>

definition optionalMinor :: "string \<Rightarrow> string \<times> string" where
  "optionalMinor r =
     (if take 1 r = ''.'' \<and> takeWhile isDigit (drop 1 r) \<noteq> []
      then (takeWhile isDigit (drop 1 r), dropWhile isDigit (drop 1 r))
      else ([], r))"

definition optionalDevPatch :: "string \<Rightarrow> string \<times> string" where
  "optionalDevPatch r =
     (if take 5 r = ''+dev.'' \<and> takeWhile isDigit (drop 5 r) \<noteq> []
      then (takeWhile isDigit (drop 5 r), dropWhile isDigit (drop 5 r))
      else ([], r))"

definition versionSubmatches :: "string \<Rightarrow> (string \<times> string \<times> string) option" where
  "versionSubmatches s =
     (let major = takeWhile isDigit s;
          (minor, r2) = optionalMinor (dropWhile isDigit s);
          (patch, r3) = optionalDevPatch r2
      in if major \<noteq> [] \<and> r3 = [] then Some (major, minor, patch) else None)"

definition parseReleaseVersion :: "string \<Rightarrow> (int \<times> int \<times> int) result" where
  "parseReleaseVersion versionString =
     (case versionSubmatches versionString of
        None \<Rightarrow> Inl (Err (versionString @ '' is not a valid BOSH release version''))
      | Some (s1, s2, s3) \<Rightarrow>
          (case Atoi s1 of
             Inl e \<Rightarrow> Inl e
           | Inr major \<Rightarrow>
               (case (if s2 \<noteq> [] then Atoi s2 else Inr 0) of
                  Inl e \<Rightarrow> Inl e
                | Inr minor \<Rightarrow>
                    (case (if s3 \<noteq> [] then Atoi s3 else Inr 0) of
                       Inl e \<Rightarrow> Inl e
                     | Inr patch \<Rightarrow> Inr (major, minor, patch)))))"

definition oldGreaterThanNew :: "int \<Rightarrow> int \<Rightarrow> int \<Rightarrow> int \<Rightarrow> int \<Rightarrow> int \<Rightarrow> bool" where
  "oldGreaterThanNew oldMajorVersion oldMinorVersion oldPatchVersion
                     newMajorVersion newMinorVersion newPatchVersion =
     (if oldMajorVersion \<noteq> newMajorVersion then oldMajorVersion > newMajorVersion
      else if oldMinorVersion \<noteq> newMinorVersion then oldMinorVersion > newMinorVersion
      else oldPatchVersion > newPatchVersion)"

fun findOldManifestRedisRelease :: "string \<Rightarrow> BoshRelease list \<Rightarrow> BoshRelease result" where
  "findOldManifestRedisRelease redisReleaseName [] =
     Inl (Err (''no release with name '' @ redisReleaseName @ '' found in previous manifest''))"
| "findOldManifestRedisRelease redisReleaseName (oldManifestRelease # rest) =
     (if ReleaseName oldManifestRelease = redisReleaseName then Inr oldManifestRelease
      else findOldManifestRedisRelease redisReleaseName rest)"

definition downgradeError :: "string \<Rightarrow> string \<Rightarrow> failure" where
  "downgradeError newVersion oldVersion =
     Err (''error generating manifest: new release version '' @ newVersion @
          '' is lower than existing release version '' @ oldVersion)"

definition validUpgradePath :: "BoshManifest \<Rightarrow> ServiceRelease list \<Rightarrow> unit result" where
  "validUpgradePath previousManifest serviceReleases =
     (case findReleaseForJob RedisServerJobName serviceReleases of
        Inl e \<Rightarrow> Inl e
      | Inr newRedisRelease \<Rightarrow>
     (case findOldManifestRedisRelease (Name newRedisRelease) (ManifestReleases previousManifest) of
        Inl e \<Rightarrow> Inl e
      | Inr oldRedisRelease \<Rightarrow>
     if Version newRedisRelease = ''latest'' \<or> ReleaseVersion oldRedisRelease = ''latest''
     then Inr ()
     else
     (case parseReleaseVersion (Version newRedisRelease) of
        Inl e \<Rightarrow> Inl e
      | Inr (newMajorVersion, newMinorVersion, newPatchVersion) \<Rightarrow>
     (case parseReleaseVersion (ReleaseVersion oldRedisRelease) of
        Inl e \<Rightarrow> Inl e
      | Inr (oldMajorVersion, oldMinorVersion, oldPatchVersion) \<Rightarrow>
     if oldGreaterThanNew oldMajorVersion oldMinorVersion oldPatchVersion
                          newMajorVersion newMinorVersion newPatchVersion
     then Inl (downgradeError (Version newRedisRelease) (ReleaseVersion oldRedisRelease))
     else Inr ()))))"

subsection \<open>Properties of the Redis server\<close>

text \<open>
  \<open>manifest.InstanceGroups[0].Properties["redis"].(map[interface{}]interface{})\<close>:
  indexing an empty slice panics, and so does the type assertion when the property is
  absent (the lookup yields \<open>nil\<close>) or holds anything but such a map. The assertion
  succeeds on a nil map of that type; the result \<open>None\<close> is that nil map.
\<close>

definition redisPlanProperties :: "BoshManifest \<Rightarrow> (val \<times> val) list option result" where
  "redisPlanProperties manifest =
     (case ManifestInstanceGroups manifest of
        [] \<Rightarrow> Inl (Panic IndexOutOfRange)
      | ig # _ \<Rightarrow>
          (case map_of (BoshIGProperties ig) ''redis'' of
             Some (VMap m) \<Rightarrow> Inr (Some m)
           | Some VNilMap \<Rightarrow> Inr None
           | _ \<Rightarrow> Inl (Panic TypeAssertionFailed)))"

text \<open>Indexing a map of \<open>interface{}\<close> values: an absent key yields \<open>nil\<close>.\<close>

definition index_map :: "('k \<times> val) list \<Rightarrow> 'k \<Rightarrow> val" where
  "index_map m k = (case map_of m k of None \<Rightarrow> VNil | Some v \<Rightarrow> v)"

text \<open>Indexing a map that may be the nil map: in the nil map every key is absent.\<close>

definition index_nil_map :: "(val \<times> val) list option \<Rightarrow> val \<Rightarrow> val" where
  "index_nil_map m k = (case m of None \<Rightarrow> VNil | Some entries \<Rightarrow> index_map entries k)"

text \<open>
  \<open>previousManifestProperties\<close> is \<open>None\<close> for the nil map: there is no previous manifest,
  or the previous manifest stores a nil map.
  \<open>CurrentPasswordGenerator\<close> is the package variable; its argument here is what the
  installed generator returns when this call invokes it.
\<close>

definition passwordForRedisServer :: "string result \<Rightarrow> (val \<times> val) list option \<Rightarrow> string result" where
  "passwordForRedisServer CurrentPasswordGenerator previousManifestProperties =
     (case previousManifestProperties of
        Some props \<Rightarrow>
          (case index_map props (VString ''password'') of
             VString s \<Rightarrow> Inr s
           | _ \<Rightarrow> Inl (Panic TypeAssertionFailed))
      | None \<Rightarrow> CurrentPasswordGenerator)"

definition maxClientsForRedisServer ::
  "(float64 \<Rightarrow> int) \<Rightarrow> (string \<times> val) list \<Rightarrow> (val \<times> val) list option \<Rightarrow> int result" where
  "maxClientsForRedisServer overflow arbitraryParams previousManifestProperties =
     (case map_of arbitraryParams ''maxclients'' of
        Some configuredMax \<Rightarrow>
          (case configuredMax of
             VFloat64 f \<Rightarrow> Inr (int_of_float64 overflow f)
           | _ \<Rightarrow> Inl (Panic TypeAssertionFailed))
      | None \<Rightarrow>
          (case previousManifestProperties of
             Some props \<Rightarrow>
               (case index_map props (VString ''maxclients'') of
                  VInt n \<Rightarrow> Inr n
                | _ \<Rightarrow> Inl (Panic TypeAssertionFailed))
           | None \<Rightarrow> Inr 10000))"

text \<open>From here on a function that logs returns the logged lines with its result.\<close>

definition persistenceForRedisServer :: "(string \<times> val) list \<Rightarrow> string list \<times> string result" where
  "persistenceForRedisServer planProperties =
     (case map_of planProperties RedisServerPersistencePropertyKey of
        None \<Rightarrow>
          ([''the plan property '' @ [CHR 0x27] @ RedisServerPersistencePropertyKey @
            [CHR 0x27] @ '' is missing''],
           Inl (Err []))
      | Some persistenceConfig \<Rightarrow>
          (case persistenceConfig of
             VBool b \<Rightarrow> ([], Inr (if b then ''yes'' else ''no''))
           | _ \<Rightarrow> ([], Inl (Panic TypeAssertionFailed))))"

definition redisServerProperties ::
  "string result \<Rightarrow> (float64 \<Rightarrow> int) \<Rightarrow> string \<Rightarrow> (string \<times> val) list \<Rightarrow> (string \<times> val) list \<Rightarrow>
   BoshManifest option \<Rightarrow> string list \<times> (string \<times> val) list result" where
  "redisServerProperties CurrentPasswordGenerator overflow deploymentName planProperties
                         arbitraryParams previousManifest =
     (case (case previousManifest of
              None \<Rightarrow> Inr None
            | Some pm \<Rightarrow> redisPlanProperties pm) of
        Inl e \<Rightarrow> ([], Inl e)
      | Inr previousRedisProperties \<Rightarrow>
     (case persistenceForRedisServer planProperties of
        (lg, Inl e) \<Rightarrow> (lg, Inl e)
      | (lg, Inr persistence) \<Rightarrow>
     (case passwordForRedisServer CurrentPasswordGenerator previousRedisProperties of
        Inl e \<Rightarrow> (lg, Inl e)
      | Inr password \<Rightarrow>
     (case maxClientsForRedisServer overflow arbitraryParams previousRedisProperties of
        Inl e \<Rightarrow> (lg, Inl e)
      | Inr maxClients \<Rightarrow>
          (lg, Inr [(''redis'', VMap [(VString ''persistence'', VString persistence),
                                     (VString ''password'', VString password),
                                     (VString ''maxclients'', VInt maxClients)])])))))"

subsection \<open>Manifest generation\<close>

fun findRedisServerInstanceGroup :: "PlanInstanceGroup list \<Rightarrow> PlanInstanceGroup option" where
  "findRedisServerInstanceGroup [] = None"
| "findRedisServerInstanceGroup (instanceGroup # rest) =
     (if IGName instanceGroup = RedisServerJobName then Some instanceGroup
      else findRedisServerInstanceGroup rest)"

definition generateUpdateBlock :: "PlanUpdate option \<Rightarrow> BoshUpdate" where
  "generateUpdateBlock update =
     (case update of
        Some u \<Rightarrow>
          \<lparr>BoshCanaries = Canaries u,
           BoshCanaryWatchTime = CanaryWatchTime u,
           BoshUpdateWatchTime = UpdateWatchTime u,
           BoshMaxInFlight = MaxInFlight u,
           BoshSerial = Serial u\<rparr>
      | None \<Rightarrow>
          \<lparr>BoshCanaries = 1,
           BoshCanaryWatchTime = ''30000-240000'',
           BoshUpdateWatchTime = ''30000-240000'',
           BoshMaxInFlight = VInt 4,
           BoshSerial = None\<rparr>)"

definition unsupportedParameterError :: "string list \<Rightarrow> failure" where
  "unsupportedParameterError illegalArbParams =
     Err (''unsupported parameter(s) for this service plan: '' @ Join illegalArbParams '', '')"

definition GenerateManifest ::
  "string result \<Rightarrow> (float64 \<Rightarrow> int) \<Rightarrow> ServiceDeployment \<Rightarrow> Plan \<Rightarrow> RequestParameters \<Rightarrow>
   BoshManifest option \<Rightarrow> Plan option \<Rightarrow> string list \<times> BoshManifest result" where
  "GenerateManifest CurrentPasswordGenerator overflow serviceDeployment plan requestParams
                    previousManifest previousPlan =
     (let arbitraryParameters = ArbitraryParams requestParams;
          illegalArbParams = findIllegalArbitraryParams arbitraryParameters
      in
      if length illegalArbParams \<noteq> 0 then ([], Inl (unsupportedParameterError illegalArbParams))
      else
      (case (case previousManifest of
               Some pm \<Rightarrow> validUpgradePath pm (Releases serviceDeployment)
             | None \<Rightarrow> Inr ()) of
         Inl e \<Rightarrow> ([], Inl e)
       | Inr _ \<Rightarrow>
      (let stemcellAlias = ''only-stemcell'' in
       case findRedisServerInstanceGroup (InstanceGroups plan) of
         None \<Rightarrow>
           ([''no '' @ RedisServerJobName @ '' instance group definition found''],
            Inl (Err ''Contact your operator, service configuration issue occurred''))
       | Some redisServerInstanceGroup \<Rightarrow>
      (let networks = map (\<lambda>network. \<lparr>NetworkName = network\<rparr>) (Networks redisServerInstanceGroup) in
       case redisServerProperties CurrentPasswordGenerator overflow
              (DeploymentName serviceDeployment) (Properties plan) arbitraryParameters
              previousManifest of
         (lg, Inl e) \<Rightarrow> (lg, Inl e)
       | (lg, Inr redisProperties) \<Rightarrow>
      (let releases = map (\<lambda>release. \<lparr>ReleaseName = Name release, ReleaseVersion = Version release\<rparr>)
                          (Releases serviceDeployment) in
       case gatherJobs (Releases serviceDeployment) of
         Inl e \<Rightarrow> (lg, Inl e)
       | Inr jobs \<Rightarrow>
           (lg, Inr
             \<lparr>ManifestName = DeploymentName serviceDeployment,
              ManifestReleases = releases,
              ManifestStemcells =
                [\<lparr>Alias = stemcellAlias,
                  BoshOS = OS (Stemcell serviceDeployment),
                  BoshStemcellVersion = StemcellVersion (Stemcell serviceDeployment)\<rparr>],
              ManifestInstanceGroups =
                [\<lparr>BoshIGName = RedisServerJobName,
                  BoshInstances = Instances redisServerInstanceGroup,
                  BoshJobs = jobs,
                  BoshVMType = VMType redisServerInstanceGroup,
                  BoshVMExtensions = VMExtensions redisServerInstanceGroup,
                  BoshPersistentDiskType = PersistentDiskType redisServerInstanceGroup,
                  BoshIGStemcell = stemcellAlias,
                  BoshNetworks = networks,
                  BoshAZs = AZs redisServerInstanceGroup,
                  BoshIGProperties = redisProperties\<rparr>],
              ManifestUpdate = generateUpdateBlock (Update plan),
              ManifestProperties = []\<rparr>))))))"

subsection \<open>Binding\<close>

text \<open>
  \<open>bosh.BoshVMs\<close> maps an instance-group name to its addresses; \<open>len\<close> of the map is the
  number of its entries, and indexing an absent key yields the nil slice, of length 0.
\<close>

definition getRedisHost :: "(string \<times> string list) list \<Rightarrow> string result" where
  "getRedisHost deploymentTopology =
     (if length deploymentTopology \<noteq> 1 then
        Inl (Err (''expected 1 instance group in the Redis deployment, got '' @
                  decimal (length deploymentTopology)))
      else
        (let redisServerIPs =
               (case map_of deploymentTopology ''redis-server'' of None \<Rightarrow> [] | Some ips \<Rightarrow> ips)
         in if length redisServerIPs \<noteq> 1 then
              Inl (Err (''expected redis-server instance group to have only 1 instance, got '' @
                        decimal (length redisServerIPs)))
            else Inr (hd redisServerIPs)))"

text \<open>
  The regular expression \<^verbatim>\<open>^\(\(([^()]+)\)\)$\<close>: two opening parentheses, the longest
  non-empty run of characters other than parentheses, two closing parentheses, the end
  of the text. The result is submatch 1 of the only possible match; \<open>None\<close> stands for
  a match list that fails the test \<open>len(match) != 1 || len(match[0]) != 2\<close>.
\<close>

definition notParen :: "char \<Rightarrow> bool" where
  "notParen c = (c \<noteq> CHR ''('' \<and> c \<noteq> CHR '')'')"

definition credhubRefSubmatch :: "string \<Rightarrow> string option" where
  "credhubRefSubmatch pathWithParens =
     (let path = takeWhile notParen (drop 2 pathWithParens);
          rest = dropWhile notParen (drop 2 pathWithParens)
      in if take 2 pathWithParens = ''(('' \<and> path \<noteq> [] \<and> rest = ''))'' then Some path else None)"

text \<open>
  \<open>serviceadapter.ManifestSecrets\<close> is a \<open>map[string]string\<close>; \<open>None\<close> is the nil map,
  in which every lookup misses.
\<close>

definition lookup_secret :: "(string \<times> string) list option \<Rightarrow> string \<Rightarrow> string option" where
  "lookup_secret secrets k = (case secrets of None \<Rightarrow> None | Some m \<Rightarrow> map_of m k)"

definition secretPassMissing :: string where
  "secretPassMissing = ''manifest wasn't correctly interpolated: missing value for `secret_pass`''"

definition secretNotString :: string where
  "secretNotString = ''secret in manifest was not a string. expecting a credhub ref string''"

definition secretBadFormat :: "string \<Rightarrow> string" where
  "secretBadFormat pathWithParens =
     ''expecting a credhub ref string with format ((xxx)), but got: '' @ pathWithParens"

definition secretNotPresent :: "string \<Rightarrow> string" where
  "secretNotPresent path =
     ''secret '' @ [CHR 0x27] @ path @ [CHR 0x27] @ '' not present in manifest secrets passed to bind''"

text \<open>
  Lines 39 to 61 of \<open>CreateBinding\<close>: the value of \<open>secretFromConfigStore\<close> after the
  block, or the error it logs and returns.
\<close>

definition secretFromConfigStore ::
  "(val \<times> val) list option \<Rightarrow> (string \<times> string) list option \<Rightarrow>
   string list \<times> string result" where
  "secretFromConfigStore props secrets =
     (if index_nil_map props (VString ''secret'') \<noteq> VNil then
        (case index_nil_map props (VString ''secret'') of
           VString pathWithParens \<Rightarrow>
             (case credhubRefSubmatch pathWithParens of
                None \<Rightarrow> ([secretBadFormat pathWithParens], Inl (Err (secretBadFormat pathWithParens)))
              | Some path \<Rightarrow>
                  (case lookup_secret secrets path of
                     None \<Rightarrow> ([secretNotPresent path], Inl (Err (secretNotPresent path)))
                   | Some v \<Rightarrow> ([], Inr v)))
         | _ \<Rightarrow> ([secretNotString], Inl (Err secretNotString)))
      else ([], Inr []))"

definition platformDiagnostic :: "RequestParameters \<Rightarrow> string list" where
  "platformDiagnostic requestParams =
     (let ctx = ArbitraryContext requestParams; platform = Platform requestParams in
      if length ctx = 0 \<or> platform = [] \<or> platform \<noteq> ''cloudfoundry''
      then [''Non Cloud Foundry platform (or pre OSBAPI 2.13) detected'']
      else [])"

record Binding =
  Credentials :: "(string \<times> val) list"

definition CreateBinding ::
  "string \<Rightarrow> (string \<times> string list) list \<Rightarrow> BoshManifest \<Rightarrow> RequestParameters \<Rightarrow>
   (string \<times> string) list option \<Rightarrow> string list \<times> Binding result" where
  "CreateBinding bindingID deploymentTopology manifest requestParams secrets =
     (let lg0 = platformDiagnostic requestParams in
      case getRedisHost deploymentTopology of
        Inl (Panic k) \<Rightarrow> (lg0, Inl (Panic k))
      | Inl (Err msg) \<Rightarrow> (lg0 @ [msg], Inl (Err []))
      | Inr redisHost \<Rightarrow>
      (case (case secrets of
               None \<Rightarrow> Inr []
             | Some m \<Rightarrow>
                 (case map_of m ''secret_pass'' of
                    None \<Rightarrow> Inl (Err secretPassMissing)
                  | Some v \<Rightarrow> Inr v)) of
         Inl (Panic k) \<Rightarrow> (lg0, Inl (Panic k))
       | Inl (Err msg) \<Rightarrow> (lg0 @ [msg], Inl (Err msg))
       | Inr generatedSecret \<Rightarrow>
      (case redisPlanProperties manifest of
         Inl e \<Rightarrow> (lg0, Inl e)
       | Inr props \<Rightarrow>
      (case secretFromConfigStore props secrets of
         (lg1, Inl e) \<Rightarrow> (lg0 @ lg1, Inl e)
       | (lg1, Inr secretValue) \<Rightarrow>
      (case index_nil_map props (VString ''password'') of
         VString password \<Rightarrow>
           (lg0 @ lg1, Inr
             \<lparr>Credentials =
                [(''host'', VString redisHost),
                 (''port'', VInt RedisServerPort),
                 (''generated_secret'', VString generatedSecret),
                 (''password'', VString password),
                 (''secret'', VString secretValue)]\<rparr>)
       | _ \<Rightarrow> (lg0 @ lg1, Inl (Panic TypeAssertionFailed)))))))"

section \<open>Notions of the specification\<close>

text \<open>
  The matches of a job in a release list, in the words of the specification: the releases
  whose job list names the job, in the order of the list.
\<close>

definition releases_listing :: "string \<Rightarrow> ServiceRelease list \<Rightarrow> ServiceRelease list" where
  "releases_listing requiredJob releases =
     filter (\<lambda>release. requiredJob \<in> set (Jobs release)) releases"

text \<open>
  The stored value of a Redis property of a manifest, read the way both files read it:
  \<open>redisPlanProperties(manifest)[key]\<close>.
\<close>

definition redisProperty :: "BoshManifest \<Rightarrow> string \<Rightarrow> val result" where
  "redisProperty manifest key =
     (case redisPlanProperties manifest of
        Inl e \<Rightarrow> Inl e
      | Inr props \<Rightarrow> Inr (index_nil_map props (VString key)))"

text \<open>The lexicographic order on (major, minor, patch), components compared as integers.\<close>

definition triple_greater :: "int \<times> int \<times> int \<Rightarrow> int \<times> int \<times> int \<Rightarrow> bool" where
  "triple_greater old new =
     (case (old, new) of
        ((oldMajor, oldMinor, oldPatch), (newMajor, newMinor, newPatch)) \<Rightarrow>
          oldMajor > newMajor \<or>
          (oldMajor = newMajor \<and> (oldMinor > newMinor \<or> (oldMinor = newMinor \<and> oldPatch > newPatch))))"

section \<open>Example inputs\<close>

definition example_release :: "string \<Rightarrow> ServiceRelease" where
  "example_release version =
     \<lparr>Name = ''redis-release'', Version = version, Jobs = [''redis-server'']\<rparr>"

definition example_release_listed_twice :: ServiceRelease where
  "example_release_listed_twice =
     \<lparr>Name = ''redis-release'', Version = ''2.10'',
      Jobs = [''redis-server'', ''redis-server'']\<rparr>"

definition example_deployment :: "string \<Rightarrow> ServiceDeployment" where
  "example_deployment version =
     \<lparr>DeploymentName = ''redis-1'', Releases = [example_release version],
      Stemcell = \<lparr>OS = ''ubuntu-jammy'', StemcellVersion = ''1.0''\<rparr>\<rparr>"

definition example_instance_group :: PlanInstanceGroup where
  "example_instance_group =
     \<lparr>IGName = ''redis-server'', VMType = ''small'', VMExtensions = [],
      PersistentDiskType = ''ten'', Instances = 1, Networks = [''default''], AZs = [''z1'']\<rparr>"

definition example_plan :: Plan where
  "example_plan =
     \<lparr>Properties = [(''persistence'', VBool True)],
      InstanceGroups = [example_instance_group], Update = None\<rparr>"

definition example_params :: "(string \<times> val) list \<Rightarrow> RequestParameters" where
  "example_params ps = \<lparr>ArbitraryParams = ps, ArbitraryContext = [], Platform = []\<rparr>"

definition example_manifest_of :: "string \<Rightarrow> val \<Rightarrow> BoshManifest" where
  "example_manifest_of version redis =
     \<lparr>ManifestName = ''redis-1'',
      ManifestReleases = [\<lparr>ReleaseName = ''redis-release'', ReleaseVersion = version\<rparr>],
      ManifestStemcells =
        [\<lparr>Alias = ''only-stemcell'', BoshOS = ''ubuntu-jammy'', BoshStemcellVersion = ''1.0''\<rparr>],
      ManifestInstanceGroups =
        [\<lparr>BoshIGName = ''redis-server'', BoshInstances = 1,
          BoshJobs = [\<lparr>JobName = ''redis-server'', JobRelease = ''redis-release''\<rparr>],
          BoshVMType = ''small'', BoshVMExtensions = [], BoshPersistentDiskType = ''ten'',
          BoshIGStemcell = ''only-stemcell'', BoshNetworks = [\<lparr>NetworkName = ''default''\<rparr>],
          BoshAZs = [''z1''], BoshIGProperties = [(''redis'', redis)]\<rparr>],
      ManifestUpdate =
        \<lparr>BoshCanaries = 1, BoshCanaryWatchTime = ''30000-240000'',
         BoshUpdateWatchTime = ''30000-240000'', BoshMaxInFlight = VInt 4, BoshSerial = None\<rparr>,
      ManifestProperties = []\<rparr>"

definition example_manifest :: "string \<Rightarrow> (val \<times> val) list \<Rightarrow> BoshManifest" where
  "example_manifest version props = example_manifest_of version (VMap props)"

definition example_properties :: "string \<Rightarrow> int \<Rightarrow> (val \<times> val) list" where
  "example_properties password maxClients =
     [(VString ''persistence'', VString ''yes''),
      (VString ''password'', VString password),
      (VString ''maxclients'', VInt maxClients)]"

definition example_topology :: "(string \<times> string list) list" where
  "example_topology = [(''redis-server'', [''10.0.0.7''])]"

definition example_secret_properties :: "(val \<times> val) list" where
  "example_secret_properties =
     [(VString ''password'', VString ''hunter2''), (VString ''secret'', VString ''((my/path))'')]"

text \<open>
  A platform on which a conversion from \<open>float64\<close> that does not fit yields the least
  \<open>int\<close>.
\<close>

definition example_overflow :: "float64 \<Rightarrow> int" where
  "example_overflow f = MinInt"

section \<open>Verification\<close>

subsection \<open>Evaluation of the examples\<close>

lemmas example_defs =
  example_release_def example_deployment_def example_instance_group_def example_plan_def
  example_params_def example_manifest_def example_manifest_of_def example_properties_def
  example_topology_def

lemmas generator_defs =
  GenerateManifest_def redisServerProperties_def persistenceForRedisServer_def
  passwordForRedisServer_def maxClientsForRedisServer_def redisPlanProperties_def index_map_def
  index_nil_map_def gatherJobs_def findReleaseForJob_def validUpgradePath_def generateUpdateBlock_def
  RedisServerJobName_def RedisServerPersistencePropertyKey_def unsupportedParameterError_def
  downgradeError_def oldGreaterThanNew_def Let_def

lemmas version_defs =
  parseReleaseVersion_def versionSubmatches_def optionalMinor_def optionalDevPatch_def
  isDigit_def Atoi_def digits_value_def digit_value_def MaxInt_def

lemmas binder_defs =
  CreateBinding_def getRedisHost_def redisPlanProperties_def index_map_def index_nil_map_def
  secretFromConfigStore_def credhubRefSubmatch_def notParen_def lookup_secret_def
  platformDiagnostic_def secretPassMissing_def secretNotString_def secretBadFormat_def
  secretNotPresent_def RedisServerPort_def Let_def

lemma parse_2_4: "parseReleaseVersion ''2.4'' = Inr (2, 4, 0)"
  by (simp add: version_defs)

lemma parse_2_5: "parseReleaseVersion ''2.5'' = Inr (2, 5, 0)"
  by (simp add: version_defs)

lemma parse_2_10: "parseReleaseVersion ''2.10'' = Inr (2, 10, 0)"
  by (simp add: version_defs)

lemma parse_dev_patch: "parseReleaseVersion ''12.3+dev.45'' = Inr (12, 3, 45)"
  by (simp add: version_defs)

lemma parse_major_dev_patch: "parseReleaseVersion ''12+dev.45'' = Inr (12, 0, 45)"
  by (simp add: version_defs)

lemma parse_three_components:
  "parseReleaseVersion ''1.2.3'' = Inl (Err ''1.2.3 is not a valid BOSH release version'')"
  by (simp add: version_defs)

lemma example_update:
  "GenerateManifest gen ov (example_deployment ''2.10'') example_plan (example_params [])
     (Some (example_manifest ''2.5'' (example_properties ''hunter2'' 500))) None =
   ([], Inr (example_manifest ''2.10'' (example_properties ''hunter2'' 500)))"
  by (simp add: generator_defs example_defs parse_2_5 parse_2_10)

lemma example_create:
  "GenerateManifest (Inr ''fresh'') ov (example_deployment ''2.10'') example_plan
     (example_params []) None None =
   ([], Inr (example_manifest ''2.10'' (example_properties ''fresh'' 10000)))"
  by (simp add: generator_defs example_defs)

lemma example_update_maxclients:
  "GenerateManifest gen ov (example_deployment ''2.10'') example_plan
     (example_params [(''maxclients'', VFloat64 (Float64 4001 (-1)))])
     (Some (example_manifest ''2.5'' (example_properties ''hunter2'' 500))) None =
   ([], Inr (example_manifest ''2.10'' (example_properties ''hunter2'' 2000)))"
  by (simp add: generator_defs example_defs parse_2_5 parse_2_10 int_of_float64_def
      truncate_float64_def MinInt_def MaxInt_def)

subsection \<open>Release resolution\<close>

lemma appendForJobs_replicate:
  "appendForJobs j r js acc = acc @ replicate (count_list js j) r"
  by (induction js arbitrary: acc) (simp_all add: replicate_append_same)

lemma count_list_distinct:
  "distinct xs \<Longrightarrow> count_list xs x = (if x \<in> set xs then 1 else 0)"
  by (induction xs) auto

text \<open>
  When no release names a job twice, the double loop collects the releases that list the job.
\<close>

lemma releasesThatProvide_listing:
  "\<forall>r \<in> set rs. distinct (Jobs r) \<Longrightarrow>
   releasesThatProvide j rs acc = acc @ releases_listing j rs"
  by (induction rs arbitrary: acc)
     (simp_all add: releases_listing_def appendForJobs_replicate count_list_distinct)

lemma findReleaseForJob_distinct:
  assumes "\<forall>r \<in> set rs. distinct (Jobs r)"
  shows "findReleaseForJob j rs =
           (case releases_listing j rs of
              [] \<Rightarrow> Inl (Err (''no release provided for job '' @ j))
            | [r] \<Rightarrow> Inr r
            | _ \<Rightarrow> Inl (Err (''job '' @ j @ '' defined in multiple releases: '' @
                              Join (map Name (releases_listing j rs)) '', '')))"
  using assms
  by (auto simp: findReleaseForJob_def releasesThatProvide_listing Let_def split: list.splits)

subsection \<open>What a successful generation went through\<close>

lemma redisServerProperties_Inr:
  assumes "redisServerProperties gen ov dn pp ap prev = (lg, Inr props)"
  obtains prevProps persistence password maxClients where
    "case prev of None \<Rightarrow> prevProps = None
     | Some pm \<Rightarrow> redisPlanProperties pm = Inr prevProps"
    "persistenceForRedisServer pp = (lg, Inr persistence)"
    "passwordForRedisServer gen prevProps = Inr password"
    "maxClientsForRedisServer ov ap prevProps = Inr maxClients"
    "props = [(''redis'', VMap [(VString ''persistence'', VString persistence),
                               (VString ''password'', VString password),
                               (VString ''maxclients'', VInt maxClients)])]"
  using assms unfolding redisServerProperties_def
  by (auto split: option.splits sum.splits prod.splits)

lemma GenerateManifest_Inr:
  assumes "GenerateManifest gen ov sd plan rp prev pp = (lg, Inr m)"
  obtains ig props jobs where
    "findIllegalArbitraryParams (ArbitraryParams rp) = []"
    "case prev of None \<Rightarrow> True | Some pm \<Rightarrow> validUpgradePath pm (Releases sd) = Inr ()"
    "findRedisServerInstanceGroup (InstanceGroups plan) = Some ig"
    "redisServerProperties gen ov (DeploymentName sd) (Properties plan) (ArbitraryParams rp) prev =
       (lg, Inr props)"
    "gatherJobs (Releases sd) = Inr jobs"
    "map BoshJobs (ManifestInstanceGroups m) = [jobs]"
    "map BoshIGProperties (ManifestInstanceGroups m) = [props]"
  using assms unfolding GenerateManifest_def Let_def
  by (auto split: option.splits sum.splits prod.splits if_splits)

lemma redisProperty_generated:
  assumes "map BoshIGProperties (ManifestInstanceGroups m) =
             [[(''redis'', VMap [(VString ''persistence'', VString persistence),
                                (VString ''password'', VString password),
                                (VString ''maxclients'', VInt maxClients)])]]"
  shows "redisProperty m ''password'' = Inr (VString password)"
    and "redisProperty m ''maxclients'' = Inr (VInt maxClients)"
    and "redisProperty m ''persistence'' = Inr (VString persistence)"
  using assms
  by (cases "ManifestInstanceGroups m";
      simp add: redisProperty_def redisPlanProperties_def index_map_def index_nil_map_def)+

subsection \<open>The password\<close>

text \<open>
  Claim C1, as amended. Whenever \<open>GenerateManifest\<close> is called with a previous manifest whose
  stored Redis properties are not the nil map and returns a manifest, the password stored in
  the output's instance-group properties is the string stored as the password of the previous
  manifest, whatever the other inputs are. Whenever it is called without a previous manifest,
  or with one whose stored Redis properties are the nil map, and returns a manifest, the
  installed password generator returned a password and the output stores exactly that
  string; no request parameter enters it.
\<close>

theorem password_carried_forward_or_generated:
  "(GenerateManifest gen ov sd plan rp (Some pm) pp = (lg, Inr m) \<and>
    redisPlanProperties pm \<noteq> Inr None \<longrightarrow>
      (\<exists>password. redisProperty pm ''password'' = Inr (VString password) \<and>
                  redisProperty m ''password'' = Inr (VString password)))
   \<and> (GenerateManifest gen ov sd plan rp prev pp = (lg', Inr m') \<and>
      (prev = None \<or> (\<exists>pm'. prev = Some pm' \<and> redisPlanProperties pm' = Inr None)) \<longrightarrow>
      (\<exists>password. gen = Inr password \<and> redisProperty m' ''password'' = Inr (VString password)))"
proof (intro conjI impI; elim conjE)
  assume ok: "GenerateManifest gen ov sd plan rp (Some pm) pp = (lg, Inr m)"
    and stored: "redisPlanProperties pm \<noteq> Inr None"
  from ok obtain props where
    rsp: "redisServerProperties gen ov (DeploymentName sd) (Properties plan)
            (ArbitraryParams rp) (Some pm) = (lg, Inr props)"
    and out: "map BoshIGProperties (ManifestInstanceGroups m) = [props]"
    by (rule GenerateManifest_Inr)
  from rsp obtain prevProps persistence password maxClients where
    prev: "redisPlanProperties pm = Inr prevProps"
    and pw: "passwordForRedisServer gen prevProps = Inr password"
    and props: "props = [(''redis'', VMap [(VString ''persistence'', VString persistence),
                               (VString ''password'', VString password),
                               (VString ''maxclients'', VInt maxClients)])]"
    by (rule redisServerProperties_Inr) simp
  from prev stored pw have "redisProperty pm ''password'' = Inr (VString password)"
    by (auto simp: redisProperty_def passwordForRedisServer_def index_nil_map_def
        split: val.splits option.splits)
  moreover from out props have "redisProperty m ''password'' = Inr (VString password)"
    by (simp add: redisProperty_generated)
  ultimately show "\<exists>password. redisProperty pm ''password'' = Inr (VString password) \<and>
                  redisProperty m ''password'' = Inr (VString password)"
    by blast
next
  assume ok: "GenerateManifest gen ov sd plan rp prev pp = (lg', Inr m')"
    and create: "prev = None \<or> (\<exists>pm'. prev = Some pm' \<and> redisPlanProperties pm' = Inr None)"
  from ok obtain props where
    rsp: "redisServerProperties gen ov (DeploymentName sd) (Properties plan)
            (ArbitraryParams rp) prev = (lg', Inr props)"
    and out: "map BoshIGProperties (ManifestInstanceGroups m') = [props]"
    by (rule GenerateManifest_Inr)
  from rsp obtain prevProps persistence password maxClients where
    prev: "case prev of None \<Rightarrow> prevProps = None
           | Some pm \<Rightarrow> redisPlanProperties pm = Inr prevProps"
    and pw: "passwordForRedisServer gen prevProps = Inr password"
    and props: "props = [(''redis'', VMap [(VString ''persistence'', VString persistence),
                               (VString ''password'', VString password),
                               (VString ''maxclients'', VInt maxClients)])]"
    by (rule redisServerProperties_Inr)
  from prev create have "prevProps = None" by auto
  with pw have "gen = Inr password"
    by (simp add: passwordForRedisServer_def)
  moreover from out props have "redisProperty m' ''password'' = Inr (VString password)"
    by (simp add: redisProperty_generated)
  ultimately show "\<exists>password. gen = Inr password \<and>
                  redisProperty m' ''password'' = Inr (VString password)"
    by blast
qed

theorem password_carried_forward_or_generated_witness:
  "GenerateManifest (Inr ''fresh'') example_overflow (example_deployment ''2.10'') example_plan
     (example_params []) (Some (example_manifest ''2.5'' (example_properties ''hunter2'' 500))) None =
     ([], Inr (example_manifest ''2.10'' (example_properties ''hunter2'' 500)))
   \<and> redisProperty (example_manifest ''2.5'' (example_properties ''hunter2'' 500)) ''password'' =
     Inr (VString ''hunter2'')
   \<and> redisProperty (example_manifest ''2.10'' (example_properties ''hunter2'' 500)) ''password'' =
     Inr (VString ''hunter2'')
   \<and> GenerateManifest (Inr ''fresh'') example_overflow (example_deployment ''2.10'') example_plan
     (example_params []) None None =
     ([], Inr (example_manifest ''2.10'' (example_properties ''fresh'' 10000)))
   \<and> redisProperty (example_manifest ''2.10'' (example_properties ''fresh'' 10000)) ''password'' =
     Inr (VString ''fresh'')"
  using password_carried_forward_or_generated
    [where gen = "Inr ''fresh''" and ov = example_overflow and sd = "example_deployment ''2.10''"
       and plan = example_plan and rp = "example_params []"
       and pm = "example_manifest ''2.5'' (example_properties ''hunter2'' 500)" and pp = None
       and lg = "[]" and m = "example_manifest ''2.10'' (example_properties ''hunter2'' 500)"
       and prev = None and lg' = "[]"
       and m' = "example_manifest ''2.10'' (example_properties ''fresh'' 10000)"]
    example_update [of "Inr ''fresh''" example_overflow] example_create [of example_overflow]
  by (auto simp: redisProperty_def redisPlanProperties_def index_map_def index_nil_map_def
      example_manifest_def example_manifest_of_def example_properties_def)

theorem password_carried_forward_or_generated_counterexample:
  "redisProperty (example_manifest_of ''2.5'' VNilMap) ''password'' = Inr VNil
   \<and> GenerateManifest (Inr ''fresh'') example_overflow (example_deployment ''2.10'') example_plan
       (example_params []) (Some (example_manifest_of ''2.5'' VNilMap)) None =
     ([], Inr (example_manifest ''2.10'' (example_properties ''fresh'' 10000)))
   \<and> redisProperty (example_manifest ''2.10'' (example_properties ''fresh'' 10000)) ''password'' =
     Inr (VString ''fresh'')"
  by (simp add: generator_defs example_defs redisProperty_def parse_2_5 parse_2_10)

subsection \<open>The sentinel version\<close>

text \<open>
  Claim C3. In every upgrade-path validation in which the new release list resolves to a
  release for the primary server job and the previous manifest holds a release of that
  name: if the version of either of the two is the literal \<open>latest\<close>, the validation
  passes, whatever the other version string is (it is not even parsed).
\<close>

theorem latest_always_passes:
  assumes "findReleaseForJob RedisServerJobName serviceReleases = Inr newRedisRelease"
    and "findOldManifestRedisRelease (Name newRedisRelease) (ManifestReleases previousManifest) =
           Inr oldRedisRelease"
    and "Version newRedisRelease = ''latest'' \<or> ReleaseVersion oldRedisRelease = ''latest''"
  shows "validUpgradePath previousManifest serviceReleases = Inr ()"
  using assms by (auto simp: validUpgradePath_def)

theorem latest_always_passes_witness:
  "parseReleaseVersion ''not a version'' =
     Inl (Err ''not a version is not a valid BOSH release version'')
   \<and> validUpgradePath (example_manifest ''not a version'' []) [example_release ''latest''] = Inr ()
   \<and> validUpgradePath (example_manifest ''latest'' []) [example_release ''not a version''] = Inr ()"
  using
    latest_always_passes
      [of "[example_release ''latest'']" "example_release ''latest''"
          "example_manifest ''not a version'' []"
          "\<lparr>ReleaseName = ''redis-release'', ReleaseVersion = ''not a version''\<rparr>"]
    latest_always_passes
      [of "[example_release ''not a version'']" "example_release ''not a version''"
          "example_manifest ''latest'' []"
          "\<lparr>ReleaseName = ''redis-release'', ReleaseVersion = ''latest''\<rparr>"]
  by (simp add: findReleaseForJob_def RedisServerJobName_def example_release_def
      example_manifest_def example_manifest_of_def version_defs)

subsection \<open>The maximum number of clients\<close>

text \<open>
  Claim C5, as amended. For every successful \<open>GenerateManifest\<close> call the value of
  \<open>maxclients\<close> in the output properties is resolved in this order: if the arbitrary
  parameters contain \<open>maxclients\<close>, it is a \<open>float64\<close> and its conversion to \<open>int\<close> is stored;
  otherwise, if there is a previous manifest whose stored Redis properties are not the nil
  map, its stored \<open>maxclients\<close> is copied; otherwise (no previous manifest, or one whose
  stored Redis properties are the nil map) 10000 is stored.
\<close>

theorem maxclients_precedence:
  assumes "GenerateManifest gen ov sd plan rp prev pp = (lg, Inr m)"
  shows "(\<forall>configuredMax. map_of (ArbitraryParams rp) ''maxclients'' = Some configuredMax \<longrightarrow>
            (\<exists>f. configuredMax = VFloat64 f \<and>
                 redisProperty m ''maxclients'' = Inr (VInt (int_of_float64 ov f))))
       \<and> (map_of (ArbitraryParams rp) ''maxclients'' = None \<longrightarrow>
            (\<forall>pm. prev = Some pm \<and> redisPlanProperties pm \<noteq> Inr None \<longrightarrow>
               redisProperty m ''maxclients'' = redisProperty pm ''maxclients''))
       \<and> (map_of (ArbitraryParams rp) ''maxclients'' = None \<and>
          (prev = None \<or> (\<exists>pm. prev = Some pm \<and> redisPlanProperties pm = Inr None)) \<longrightarrow>
            redisProperty m ''maxclients'' = Inr (VInt 10000))"
proof -
  from assms obtain props where
    rsp: "redisServerProperties gen ov (DeploymentName sd) (Properties plan)
            (ArbitraryParams rp) prev = (lg, Inr props)"
    and out: "map BoshIGProperties (ManifestInstanceGroups m) = [props]"
    by (rule GenerateManifest_Inr)
  from rsp obtain prevProps persistence password maxClients where
    prev: "case prev of None \<Rightarrow> prevProps = None
           | Some pm \<Rightarrow> redisPlanProperties pm = Inr prevProps"
    and mc: "maxClientsForRedisServer ov (ArbitraryParams rp) prevProps = Inr maxClients"
    and props: "props = [(''redis'', VMap [(VString ''persistence'', VString persistence),
                               (VString ''password'', VString password),
                               (VString ''maxclients'', VInt maxClients)])]"
    by (rule redisServerProperties_Inr)
  from out props have new: "redisProperty m ''maxclients'' = Inr (VInt maxClients)"
    by (simp add: redisProperty_generated)
  have explicit: "\<exists>f. configuredMax = VFloat64 f \<and>
                 redisProperty m ''maxclients'' = Inr (VInt (int_of_float64 ov f))"
    if "map_of (ArbitraryParams rp) ''maxclients'' = Some configuredMax" for configuredMax
    using mc that new by (auto simp: maxClientsForRedisServer_def split: val.splits)
  have previous: "redisProperty m ''maxclients'' = redisProperty pm ''maxclients''"
    if "map_of (ArbitraryParams rp) ''maxclients'' = None" "prev = Some pm"
       "redisPlanProperties pm \<noteq> Inr None" for pm
    using mc that new prev
    by (auto simp: maxClientsForRedisServer_def redisProperty_def index_nil_map_def
        split: val.splits option.splits)
  have default: "redisProperty m ''maxclients'' = Inr (VInt 10000)"
    if "map_of (ArbitraryParams rp) ''maxclients'' = None"
       "prev = None \<or> (\<exists>pm. prev = Some pm \<and> redisPlanProperties pm = Inr None)"
    using mc that new prev by (auto simp: maxClientsForRedisServer_def)
  from explicit previous default show ?thesis by blast
qed

theorem maxclients_precedence_witness:
  "int_of_float64 example_overflow (Float64 4001 (-1)) = 2000
   \<and> redisProperty (example_manifest ''2.10'' (example_properties ''hunter2'' 2000)) ''maxclients'' =
     Inr (VInt (int_of_float64 example_overflow (Float64 4001 (-1))))
   \<and> redisProperty (example_manifest ''2.10'' (example_properties ''hunter2'' 500)) ''maxclients'' =
     redisProperty (example_manifest ''2.5'' (example_properties ''hunter2'' 500)) ''maxclients''
   \<and> redisProperty (example_manifest ''2.10'' (example_properties ''fresh'' 10000)) ''maxclients'' =
     Inr (VInt 10000)"
  using
    maxclients_precedence [OF example_update_maxclients [of "Inr ''fresh''" example_overflow]]
    maxclients_precedence [OF example_update [of "Inr ''fresh''" example_overflow]]
    maxclients_precedence [OF example_create [of example_overflow]]
  by (simp add: example_params_def int_of_float64_def truncate_float64_def MinInt_def MaxInt_def
      redisPlanProperties_def example_manifest_def example_manifest_of_def)

theorem maxclients_precedence_counterexample:
  "map_of (ArbitraryParams (example_params [])) ''maxclients'' = None
   \<and> redisProperty (example_manifest_of ''2.5'' VNilMap) ''maxclients'' = Inr VNil
   \<and> GenerateManifest (Inr ''fresh'') example_overflow (example_deployment ''2.10'') example_plan
       (example_params []) (Some (example_manifest_of ''2.5'' VNilMap)) None =
     ([], Inr (example_manifest ''2.10'' (example_properties ''fresh'' 10000)))
   \<and> redisProperty (example_manifest ''2.10'' (example_properties ''fresh'' 10000)) ''maxclients'' =
     Inr (VInt 10000)"
  by (simp add: generator_defs example_defs redisProperty_def parse_2_5 parse_2_10)

subsection \<open>The release of the primary server job\<close>

text \<open>
  Claim C6. With exactly one release that lists the primary server job, that release is to
  be returned. The code departs from this for a release that names the job twice in its job
  list: it is the only release that lists the job, yet it is collected once per listing, so
  that resolution, and with it the gathering of the jobs and the generation of the manifest,
  fails with the error for several releases, naming the one release twice.
\<close>

theorem release_listed_twice:
  "releases_listing ''redis-server'' [example_release_listed_twice] = [example_release_listed_twice]
   \<and> findReleaseForJob ''redis-server'' [example_release_listed_twice] =
     Inl (Err ''job redis-server defined in multiple releases: redis-release, redis-release'')
   \<and> gatherJobs [example_release_listed_twice] =
     Inl (Err ''job redis-server defined in multiple releases: redis-release, redis-release'')
   \<and> GenerateManifest (Inr ''fresh'') example_overflow
       \<lparr>DeploymentName = ''redis-1'', Releases = [example_release_listed_twice],
        Stemcell = \<lparr>OS = ''ubuntu-jammy'', StemcellVersion = ''1.0''\<rparr>\<rparr>
       example_plan (example_params []) None None =
     ([], Inl (Err ''job redis-server defined in multiple releases: redis-release, redis-release''))"
  by (simp add: releases_listing_def generator_defs example_defs example_release_listed_twice_def)

subsection \<open>Version ordering\<close>

lemma oldGreaterThanNew_triple:
  "oldGreaterThanNew a b c d e f = triple_greater (a, b, c) (d, e, f)"
  by (auto simp: oldGreaterThanNew_def triple_greater_def)

lemma validUpgradePath_parsed:
  assumes "findReleaseForJob RedisServerJobName serviceReleases = Inr newRedisRelease"
    and "findOldManifestRedisRelease (Name newRedisRelease) (ManifestReleases previousManifest) =
           Inr oldRedisRelease"
    and "Version newRedisRelease \<noteq> ''latest''" and "ReleaseVersion oldRedisRelease \<noteq> ''latest''"
    and "parseReleaseVersion (Version newRedisRelease) = Inr new"
    and "parseReleaseVersion (ReleaseVersion oldRedisRelease) = Inr old"
  shows "validUpgradePath previousManifest serviceReleases =
           (if triple_greater old new
            then Inl (downgradeError (Version newRedisRelease) (ReleaseVersion oldRedisRelease))
            else Inr ())"
  using assms
  by (cases new; cases old) (simp add: validUpgradePath_def oldGreaterThanNew_triple)

lemma passwordForRedisServer_previous_no_error:
  "passwordForRedisServer gen (Some props) \<noteq> Inl (Err msg)"
  by (simp add: passwordForRedisServer_def split: val.splits)

lemma maxClientsForRedisServer_no_error:
  "maxClientsForRedisServer ov ap prevProps \<noteq> Inl (Err msg)"
  by (simp add: maxClientsForRedisServer_def split: val.splits option.splits)

lemma redisPlanProperties_no_error:
  "redisPlanProperties pm \<noteq> Inl (Err msg)"
  by (simp add: redisPlanProperties_def split: list.splits option.splits val.splits)

text \<open>
  With a previous manifest, an error returned by property resolution is the empty
  configuration error, or else the error of the password generator, which is called when
  the stored Redis properties are the nil map.
\<close>

lemma redisServerProperties_previous_error:
  assumes "snd (redisServerProperties gen ov dn planProps ap (Some pm)) = Inl (Err msg)"
  shows "msg = [] \<or> (redisPlanProperties pm = Inr None \<and> gen = Inl (Err msg))"
  using assms passwordForRedisServer_previous_no_error maxClientsForRedisServer_no_error
    redisPlanProperties_no_error [of pm msg]
  unfolding redisServerProperties_def persistenceForRedisServer_def
  by (cases "redisPlanProperties pm")
     (auto simp: passwordForRedisServer_def split: option.splits sum.splits prod.splits val.splits)

lemma GenerateManifest_after_validation:
  assumes "findIllegalArbitraryParams (ArbitraryParams rp) = []"
    and "validUpgradePath pm (Releases sd) = Inr ()"
    and "snd (GenerateManifest gen ov sd plan rp (Some pm) pp) = Inl (Err msg)"
  shows "msg = ''Contact your operator, service configuration issue occurred'' \<or> msg = [] \<or>
         (redisPlanProperties pm = Inr None \<and> gen = Inl (Err msg)) \<or>
         gatherJobs (Releases sd) = Inl (Err msg)"
  using assms redisServerProperties_previous_error
    [of gen ov "DeploymentName sd" "Properties plan" "ArbitraryParams rp" pm msg]
  unfolding GenerateManifest_def Let_def
  by (auto split: option.splits sum.splits prod.splits)

text \<open>
  A version string may match the grammar and still not be parsed: a component beyond the
  largest \<open>int\<close> is refused by \<open>strconv.Atoi\<close>.
\<close>

lemma parse_out_of_range:
  "versionSubmatches ''9223372036854775808'' = Some (''9223372036854775808'', [], [])
   \<and> parseReleaseVersion ''9223372036854775808'' =
     Inl (Err (''strconv.Atoi: parsing '' @ [CHR 0x22] @ ''9223372036854775808'' @ [CHR 0x22] @
               '': value out of range''))"
  by (simp add: version_defs)

text \<open>
  The generator's error is returned as it is: after a passed validation, generation can fail
  with any text that the generator chooses, also with that of the downgrade error.
\<close>

lemma generator_error_after_validation:
  "\<not> triple_greater (2, 5, 0) (2, 10, 0)
   \<and> validUpgradePath (example_manifest_of ''2.5'' VNilMap) (Releases (example_deployment ''2.10'')) =
     Inr ()
   \<and> GenerateManifest
       (Inl (Err ''error generating manifest: new release version 2.10 is lower than existing release version 2.5''))
       example_overflow (example_deployment ''2.10'') example_plan (example_params [])
       (Some (example_manifest_of ''2.5'' VNilMap)) None =
     ([], Inl (Err ''error generating manifest: new release version 2.10 is lower than existing release version 2.5''))"
  by (simp add: generator_defs example_defs parse_2_5 parse_2_10 triple_greater_def)

text \<open>
  Claim C2, as amended. For every \<open>GenerateManifest\<close> call with a previous manifest and legal
  arbitrary parameters, where the new release list resolves to a unique release for the
  primary server job, the previous manifest holds a release of that name, neither version is
  \<open>latest\<close> and \<open>parseReleaseVersion\<close> returns a triple for both: the upgrade-path validation
  fails if and only if the old (major, minor, patch) triple is lexicographically greater than
  the new one, components compared as integers, and generation fails with the downgrade
  error, which names both version strings, if and only if it is. (When the old triple is not
  greater, generation goes on and may still fail in a later step. The one error of a later
  step whose text is not fixed is that of the password generator, called when the previous
  manifest stores the nil map as its Redis properties; the equivalence for generation is
  stated for the calls in which that error, if it occurs, is not the downgrade message.)
\<close>

theorem downgrade_iff_old_greater:
  assumes "findIllegalArbitraryParams (ArbitraryParams rp) = []"
    and "findReleaseForJob RedisServerJobName (Releases sd) = Inr newRedisRelease"
    and "findOldManifestRedisRelease (Name newRedisRelease) (ManifestReleases pm) =
           Inr oldRedisRelease"
    and "Version newRedisRelease \<noteq> ''latest''" and "ReleaseVersion oldRedisRelease \<noteq> ''latest''"
    and "parseReleaseVersion (Version newRedisRelease) = Inr new"
    and "parseReleaseVersion (ReleaseVersion oldRedisRelease) = Inr old"
  shows "(validUpgradePath pm (Releases sd) = Inr () \<longleftrightarrow> \<not> triple_greater old new)
       \<and> (validUpgradePath pm (Releases sd) =
            Inl (Err (''error generating manifest: new release version '' @ Version newRedisRelease @
                      '' is lower than existing release version '' @ ReleaseVersion oldRedisRelease))
          \<longleftrightarrow> triple_greater old new)
       \<and> (triple_greater old new \<longrightarrow>
            snd (GenerateManifest gen ov sd plan rp (Some pm) pp) =
            Inl (Err (''error generating manifest: new release version '' @ Version newRedisRelease @
                      '' is lower than existing release version '' @ ReleaseVersion oldRedisRelease)))
       \<and> (redisPlanProperties pm \<noteq> Inr None \<or>
          gen \<noteq> Inl (Err (''error generating manifest: new release version '' @
                            Version newRedisRelease @
                            '' is lower than existing release version '' @
                            ReleaseVersion oldRedisRelease)) \<longrightarrow>
            (snd (GenerateManifest gen ov sd plan rp (Some pm) pp) =
             Inl (Err (''error generating manifest: new release version '' @ Version newRedisRelease @
                       '' is lower than existing release version '' @ ReleaseVersion oldRedisRelease))
             \<longleftrightarrow> triple_greater old new))"
proof -
  let ?msg = "''error generating manifest: new release version '' @ Version newRedisRelease @
              '' is lower than existing release version '' @ ReleaseVersion oldRedisRelease"
  have v: "validUpgradePath pm (Releases sd) =
             (if triple_greater old new then Inl (Err ?msg) else Inr ())"
    using validUpgradePath_parsed [OF assms(2-7)] by (simp add: downgradeError_def)
  have fails: "snd (GenerateManifest gen ov sd plan rp (Some pm) pp) = Inl (Err ?msg)"
    if "triple_greater old new"
    using that v assms(1) by (simp add: GenerateManifest_def)
  have passes: "snd (GenerateManifest gen ov sd plan rp (Some pm) pp) \<noteq> Inl (Err ?msg)"
    if "\<not> triple_greater old new"
       "redisPlanProperties pm \<noteq> Inr None \<or> gen \<noteq> Inl (Err ?msg)"
  proof
    assume e: "snd (GenerateManifest gen ov sd plan rp (Some pm) pp) = Inl (Err ?msg)"
    from that(1) v have "validUpgradePath pm (Releases sd) = Inr ()" by simp
    from GenerateManifest_after_validation [OF assms(1) this e] assms(2) that(2)
    show False by (auto simp: gatherJobs_def)
  qed
  have validation_passes: "validUpgradePath pm (Releases sd) = Inr () \<longleftrightarrow> \<not> triple_greater old new"
    using v by auto
  have validation_fails:
    "validUpgradePath pm (Releases sd) = Inl (Err ?msg) \<longleftrightarrow> triple_greater old new"
    using v by auto
  have generation:
    "snd (GenerateManifest gen ov sd plan rp (Some pm) pp) = Inl (Err ?msg) \<longleftrightarrow>
       triple_greater old new"
    if "redisPlanProperties pm \<noteq> Inr None \<or> gen \<noteq> Inl (Err ?msg)"
    using fails passes that by blast
  show ?thesis
    using validation_passes validation_fails fails generation by (intro conjI impI)
qed

theorem downgrade_iff_old_greater_witness:
  "triple_greater (2, 5, 0) (2, 4, 0)
   \<and> snd (GenerateManifest (Inr ''fresh'') example_overflow (example_deployment ''2.4'') example_plan
        (example_params []) (Some (example_manifest ''2.5'' (example_properties ''hunter2'' 500)))
        None) =
     Inl (Err ''error generating manifest: new release version 2.4 is lower than existing release version 2.5'')
   \<and> \<not> triple_greater (2, 5, 0) (2, 10, 0)
   \<and> validUpgradePath (example_manifest ''2.5'' (example_properties ''hunter2'' 500))
        (Releases (example_deployment ''2.10'')) = Inr ()"
  using
    downgrade_iff_old_greater
      [where rp = "example_params []" and sd = "example_deployment ''2.4''"
         and newRedisRelease = "example_release ''2.4''"
         and pm = "example_manifest ''2.5'' (example_properties ''hunter2'' 500)"
         and oldRedisRelease = "\<lparr>ReleaseName = ''redis-release'', ReleaseVersion = ''2.5''\<rparr>"
         and new = "(2, 4, 0)" and old = "(2, 5, 0)" and gen = "Inr ''fresh''"
         and ov = example_overflow and plan = example_plan and pp = None]
    downgrade_iff_old_greater
      [where rp = "example_params []" and sd = "example_deployment ''2.10''"
         and newRedisRelease = "example_release ''2.10''"
         and pm = "example_manifest ''2.5'' (example_properties ''hunter2'' 500)"
         and oldRedisRelease = "\<lparr>ReleaseName = ''redis-release'', ReleaseVersion = ''2.5''\<rparr>"
         and new = "(2, 10, 0)" and old = "(2, 5, 0)" and gen = "Inr ''fresh''"
         and ov = example_overflow and plan = example_plan and pp = None]
  by (simp add: example_params_def example_deployment_def example_release_def example_manifest_def example_manifest_of_def
      findReleaseForJob_def RedisServerJobName_def parse_2_4 parse_2_5 parse_2_10
      triple_greater_def)

theorem downgrade_iff_old_greater_counterexample:
  "findReleaseForJob RedisServerJobName (Releases (example_deployment ''2.10'')) =
     Inr (example_release ''2.10'')
   \<and> findOldManifestRedisRelease (Name (example_release ''2.10''))
       (ManifestReleases (example_manifest ''2.5'' (example_properties ''hunter2'' 500))) =
     Inr \<lparr>ReleaseName = ''redis-release'', ReleaseVersion = ''2.5''\<rparr>
   \<and> parseReleaseVersion ''2.10'' = Inr (2, 10, 0)
   \<and> parseReleaseVersion ''2.5'' = Inr (2, 5, 0)
   \<and> \<not> triple_greater (2, 5, 0) (2, 10, 0)
   \<and> GenerateManifest (Inr ''fresh'') example_overflow (example_deployment ''2.10'')
       (example_plan\<lparr>InstanceGroups := []\<rparr>) (example_params [])
       (Some (example_manifest ''2.5'' (example_properties ''hunter2'' 500))) None =
     ([''no redis-server instance group definition found''],
      Inl (Err ''Contact your operator, service configuration issue occurred''))"
  by (simp add: generator_defs example_defs parse_2_5 parse_2_10 triple_greater_def)

subsection \<open>Arbitrary parameters\<close>





subsection \<open>A stored password that is not a string\<close>

lemma redisPlanProperties_failure:
  "redisPlanProperties pm = Inl e \<Longrightarrow> \<exists>k. e = Panic k"
  by (auto simp: redisPlanProperties_def split: list.splits option.splits val.splits)

lemma redisServerProperties_nil_map:
  "redisPlanProperties pm = Inr None \<Longrightarrow>
   redisServerProperties gen ov dn planProps ap (Some pm) =
   redisServerProperties gen ov dn planProps ap None"
  by (simp add: redisServerProperties_def)

text \<open>
  Claim C7, as amended. For every \<open>GenerateManifest\<close> call with a previous manifest whose
  stored password is absent or is not a string: when the stored Redis properties are the nil
  map, property resolution proceeds as it does without a previous manifest (the password
  generator is called); in every other case resolution yields no properties and generation
  no manifest: resolution returns the (empty) configuration error when the previous
  properties can be read and the plan has no \<open>persistence\<close> property, and otherwise it does
  not return at all but panics, on a failed type assertion or on an index out of range.
\<close>

theorem stored_password_not_a_string:
  assumes "\<forall>s. redisProperty pm ''password'' \<noteq> Inr (VString s)"
  shows "(\<forall>props. redisPlanProperties pm = Inr (Some props) \<longrightarrow>
            passwordForRedisServer gen (Some props) = Inl (Panic TypeAssertionFailed))
       \<and> redisServerProperties gen ov dn planProps ap (Some pm) =
           (case redisPlanProperties pm of
              Inl e \<Rightarrow> ([], Inl e)
            | Inr None \<Rightarrow> redisServerProperties gen ov dn planProps ap None
            | Inr (Some props) \<Rightarrow>
                (case map_of planProps ''persistence'' of
                   None \<Rightarrow> ([''the plan property 'persistence' is missing''], Inl (Err []))
                 | Some v \<Rightarrow> ([], Inl (Panic TypeAssertionFailed))))
       \<and> (\<forall>e. redisPlanProperties pm = Inl e \<longrightarrow> (\<exists>k. e = Panic k))
       \<and> (redisPlanProperties pm \<noteq> Inr None \<longrightarrow>
            (\<forall>m. snd (GenerateManifest gen ov sd plan rp (Some pm) pp) \<noteq> Inr m))"
proof (intro conjI allI impI)
  fix props assume "redisPlanProperties pm = Inr (Some props)"
  with assms show "passwordForRedisServer gen (Some props) = Inl (Panic TypeAssertionFailed)"
    by (auto simp: redisProperty_def passwordForRedisServer_def index_nil_map_def
        split: val.splits)
next
  show "redisServerProperties gen ov dn planProps ap (Some pm) =
           (case redisPlanProperties pm of
              Inl e \<Rightarrow> ([], Inl e)
            | Inr None \<Rightarrow> redisServerProperties gen ov dn planProps ap None
            | Inr (Some props) \<Rightarrow>
                (case map_of planProps ''persistence'' of
                   None \<Rightarrow> ([''the plan property 'persistence' is missing''], Inl (Err []))
                 | Some v \<Rightarrow> ([], Inl (Panic TypeAssertionFailed))))"
    using assms
    by (auto simp: redisServerProperties_def persistenceForRedisServer_def redisProperty_def
        passwordForRedisServer_def RedisServerPersistencePropertyKey_def index_nil_map_def
        split: sum.splits option.splits val.splits)
next
  fix e assume "redisPlanProperties pm = Inl e"
  then show "\<exists>k. e = Panic k" by (rule redisPlanProperties_failure)
next
  fix m
  assume stored: "redisPlanProperties pm \<noteq> Inr None"
  show "snd (GenerateManifest gen ov sd plan rp (Some pm) pp) \<noteq> Inr m"
  proof
    assume "snd (GenerateManifest gen ov sd plan rp (Some pm) pp) = Inr m"
    then have "GenerateManifest gen ov sd plan rp (Some pm) pp =
                 (fst (GenerateManifest gen ov sd plan rp (Some pm) pp), Inr m)"
      by (metis prod.collapse)
    then obtain props where
      "redisServerProperties gen ov (DeploymentName sd) (Properties plan) (ArbitraryParams rp)
         (Some pm) = (fst (GenerateManifest gen ov sd plan rp (Some pm) pp), Inr props)"
      by (rule GenerateManifest_Inr)
    then obtain prevProps password where "redisPlanProperties pm = Inr prevProps"
      and "passwordForRedisServer gen prevProps = Inr password"
      by (rule redisServerProperties_Inr) simp
    with assms stored show False
      by (auto simp: redisProperty_def passwordForRedisServer_def index_nil_map_def
          split: val.splits option.splits)
  qed
qed

theorem stored_password_not_a_string_witness:
  "redisProperty (example_manifest ''2.5'' [(VString ''password'', VInt 12345)]) ''password'' =
     Inr (VInt 12345)
   \<and> redisServerProperties (Inr ''fresh'') example_overflow ''redis-1'' (Properties example_plan)
        [] (Some (example_manifest ''2.5'' [(VString ''password'', VInt 12345)])) =
     ([], Inl (Panic TypeAssertionFailed))
   \<and> redisServerProperties (Inr ''fresh'') example_overflow ''redis-1'' [] []
        (Some (example_manifest ''2.5'' [(VString ''password'', VInt 12345)])) =
     ([''the plan property 'persistence' is missing''], Inl (Err []))
   \<and> redisProperty (example_manifest_of ''2.5'' VNilMap) ''password'' = Inr VNil
   \<and> redisServerProperties (Inr ''fresh'') example_overflow ''redis-1'' (Properties example_plan)
        [] (Some (example_manifest_of ''2.5'' VNilMap)) =
     redisServerProperties (Inr ''fresh'') example_overflow ''redis-1'' (Properties example_plan)
        [] None"
  using
    stored_password_not_a_string
      [where pm = "example_manifest ''2.5'' [(VString ''password'', VInt 12345)]"
         and gen = "Inr ''fresh''" and ov = example_overflow and dn = "''redis-1''"
         and planProps = "Properties example_plan" and ap = "[]"
         and sd = "example_deployment ''2.10''" and plan = example_plan
         and rp = "example_params []" and pp = None]
    stored_password_not_a_string
      [where pm = "example_manifest ''2.5'' [(VString ''password'', VInt 12345)]"
         and gen = "Inr ''fresh''" and ov = example_overflow and dn = "''redis-1''"
         and planProps = "[]" and ap = "[]"
         and sd = "example_deployment ''2.10''" and plan = example_plan
         and rp = "example_params []" and pp = None]
    stored_password_not_a_string
      [where pm = "example_manifest_of ''2.5'' VNilMap"
         and gen = "Inr ''fresh''" and ov = example_overflow and dn = "''redis-1''"
         and planProps = "Properties example_plan" and ap = "[]"
         and sd = "example_deployment ''2.10''" and plan = example_plan
         and rp = "example_params []" and pp = None]
  by (simp add: redisProperty_def redisPlanProperties_def index_map_def index_nil_map_def
      example_manifest_def example_manifest_of_def example_plan_def)

theorem stored_password_not_a_string_counterexample:
  "redisProperty (example_manifest ''2.5'' [(VString ''maxclients'', VInt 500)]) ''password'' =
     Inr VNil
   \<and> redisServerProperties (Inr ''fresh'') example_overflow ''redis-1'' (Properties example_plan) []
       (Some (example_manifest ''2.5'' [(VString ''maxclients'', VInt 500)])) =
     ([], Inl (Panic TypeAssertionFailed))
   \<and> GenerateManifest (Inr ''fresh'') example_overflow (example_deployment ''2.10'') example_plan
       (example_params []) (Some (example_manifest ''2.5'' [(VString ''maxclients'', VInt 500)]))
       None =
     ([], Inl (Panic TypeAssertionFailed))
   \<and> redisServerProperties (Inr ''fresh'') example_overflow ''redis-1'' (Properties example_plan) []
       (Some (example_manifest ''2.5'' [(VString ''password'', VInt 12345)])) =
     ([], Inl (Panic TypeAssertionFailed))"
  by (simp add: generator_defs example_defs redisProperty_def parse_2_5 parse_2_10)

subsection \<open>The topology\<close>

lemma decimal_0: "decimal 0 = ''0''"
  by (simp add: decimal.simps digit_char_def)

lemma getRedisHost_failure:
  "getRedisHost topo = Inl e \<Longrightarrow> \<exists>msg. e = Err msg"
  by (auto simp: getRedisHost_def Let_def split: if_splits)

text \<open>
  Claim C8, as amended. For every \<open>CreateBinding\<close> call whose topology does not contain exactly
  one instance group, or whose only instance group is not \<open>redis-server\<close> with exactly one
  address, the operation fails. The error returned to the caller has the empty message in
  both cases; the message that names the actual count (of instance groups, or of addresses
  found under \<open>redis-server\<close>) and tells the two cases apart is written to the log.
\<close>

theorem topology_cardinality:
  "(length topo \<noteq> 1 \<longrightarrow>
      CreateBinding b topo manifest rp secrets =
        (platformDiagnostic rp @
           [''expected 1 instance group in the Redis deployment, got '' @ decimal (length topo)],
         Inl (Err [])))
   \<and> (\<forall>g ips. topo = [(g, ips)] \<and> (g \<noteq> ''redis-server'' \<or> length ips \<noteq> 1) \<longrightarrow>
      CreateBinding b topo manifest rp secrets =
        (platformDiagnostic rp @
           [''expected redis-server instance group to have only 1 instance, got '' @
            (if g = ''redis-server'' then decimal (length ips) else ''0'')],
         Inl (Err [])))"
  by (auto simp: CreateBinding_def getRedisHost_def decimal_0)

theorem topology_cardinality_witness:
  "CreateBinding ''binding-1'' [(''redis-server'', [''10.0.0.7'']), (''other'', [''10.0.0.8''])]
     (example_manifest ''2.5'' (example_properties ''hunter2'' 500)) (example_params []) None =
     ([''Non Cloud Foundry platform (or pre OSBAPI 2.13) detected'',
       ''expected 1 instance group in the Redis deployment, got 2''],
      Inl (Err []))
   \<and> CreateBinding ''binding-1'' [(''redis-server'', [''10.0.0.7'', ''10.0.0.8''])]
     (example_manifest ''2.5'' (example_properties ''hunter2'' 500)) (example_params []) None =
     ([''Non Cloud Foundry platform (or pre OSBAPI 2.13) detected'',
       ''expected redis-server instance group to have only 1 instance, got 2''],
      Inl (Err []))"
  using
    topology_cardinality
      [where topo = "[(''redis-server'', [''10.0.0.7'']), (''other'', [''10.0.0.8''])]"
         and b = "''binding-1''"
         and manifest = "example_manifest ''2.5'' (example_properties ''hunter2'' 500)"
         and rp = "example_params []" and secrets = None]
    topology_cardinality
      [where topo = "[(''redis-server'', [''10.0.0.7'', ''10.0.0.8''])]"
         and b = "''binding-1''"
         and manifest = "example_manifest ''2.5'' (example_properties ''hunter2'' 500)"
         and rp = "example_params []" and secrets = None]
  by (simp add: platformDiagnostic_def example_params_def decimal.simps digit_char_def)

theorem topology_cardinality_counterexample:
  "snd (CreateBinding ''binding-1'' [(''redis-server'', [''10.0.0.7'']), (''other'', [''10.0.0.8''])]
     (example_manifest ''2.5'' (example_properties ''hunter2'' 500)) (example_params []) None) =
     Inl (Err [])
   \<and> snd (CreateBinding ''binding-1'' [(''redis-server'', [''10.0.0.7'', ''10.0.0.8''])]
     (example_manifest ''2.5'' (example_properties ''hunter2'' 500)) (example_params []) None) =
     Inl (Err [])"
  by (simp add: CreateBinding_def getRedisHost_def)

subsection \<open>The secret of the configuration store\<close>

lemma credhubRefSubmatch_Some_iff:
  "credhubRefSubmatch s = Some path \<longleftrightarrow>
     s = ''(('' @ path @ ''))'' \<and> path \<noteq> [] \<and> (\<forall>c \<in> set path. notParen c)"
proof
  assume m: "credhubRefSubmatch s = Some path"
  then have t: "take 2 s = ''((''" and p: "path = takeWhile notParen (drop 2 s)"
    and ne: "path \<noteq> []" and r: "dropWhile notParen (drop 2 s) = ''))''"
    by (auto simp: credhubRefSubmatch_def Let_def split: if_splits)
  have "s = take 2 s @ drop 2 s" by simp
  also have "drop 2 s = takeWhile notParen (drop 2 s) @ dropWhile notParen (drop 2 s)" by simp
  finally have "s = ''(('' @ path @ ''))''" using t p r by simp
  moreover from p have "\<forall>c \<in> set path. notParen c" by (auto dest: set_takeWhileD)
  ultimately show "s = ''(('' @ path @ ''))'' \<and> path \<noteq> [] \<and> (\<forall>c \<in> set path. notParen c)"
    using ne by simp
next
  assume a: "s = ''(('' @ path @ ''))'' \<and> path \<noteq> [] \<and> (\<forall>c \<in> set path. notParen c)"
  then have d: "drop 2 s = path @ ''))''" and t: "take 2 s = ''((''" by simp_all
  from a have tw: "takeWhile notParen (path @ ''))'') = path"
    by (simp add: takeWhile_append2 notParen_def)
  from a have dw: "dropWhile notParen (path @ ''))'') = ''))''"
    by (simp add: dropWhile_append2 notParen_def)
  from a d t tw dw show "credhubRefSubmatch s = Some path"
    by (simp add: credhubRefSubmatch_def)
qed

lemma secretFromConfigStore_Inr:
  assumes "secretFromConfigStore props secrets = (lg, Inr v)"
    and "index_nil_map props (VString ''secret'') \<noteq> VNil"
  shows "\<exists>path. index_nil_map props (VString ''secret'') = VString (''(('' @ path @ ''))'') \<and>
                path \<noteq> [] \<and> (\<forall>c \<in> set path. notParen c) \<and> lookup_secret secrets path = Some v"
  using assms
  by (auto simp: secretFromConfigStore_def credhubRefSubmatch_Some_iff
      split: val.splits option.splits)

lemma CreateBinding_Inr:
  assumes "snd (CreateBinding b topo manifest rp secrets) = Inr binding"
  obtains redisHost generatedSecret props lg1 secretValue password where
    "getRedisHost topo = Inr redisHost"
    "case secrets of None \<Rightarrow> generatedSecret = []
     | Some m \<Rightarrow> map_of m ''secret_pass'' = Some generatedSecret"
    "redisPlanProperties manifest = Inr props"
    "secretFromConfigStore props secrets = (lg1, Inr secretValue)"
    "index_nil_map props (VString ''password'') = VString password"
    "binding = \<lparr>Credentials =
                [(''host'', VString redisHost),
                 (''port'', VInt RedisServerPort),
                 (''generated_secret'', VString generatedSecret),
                 (''password'', VString password),
                 (''secret'', VString secretValue)]\<rparr>"
  using assms unfolding CreateBinding_def Let_def
  by (auto split: sum.splits failure.splits option.splits prod.splits val.splits)

text \<open>
  Claim C9, as amended. For every \<open>CreateBinding\<close> call where the properties of the manifest
  declare a non-nil \<open>secret\<close>: the call returns credentials only if that value is a string
  of the form \<open>((name))\<close>, with a non-empty name free of parentheses, and the name is in the
  secrets bundle, and then the \<open>secret\<close> of the credentials is the bundle's value for the
  name. When the value has that form and the call has passed the earlier steps (the topology
  yields a host and a supplied bundle holds \<open>secret_pass\<close>): absence of the name fails with
  an error naming it, and presence yields those credentials provided the stored password is
  a string.
\<close>

theorem declared_secret:
  "(snd (CreateBinding b topo manifest rp secrets) = Inr binding \<and>
    redisProperty manifest ''secret'' \<noteq> Inr VNil \<longrightarrow>
      (\<exists>path v. redisProperty manifest ''secret'' = Inr (VString (''(('' @ path @ ''))'')) \<and>
                path \<noteq> [] \<and> (\<forall>c \<in> set path. notParen c) \<and>
                lookup_secret secrets path = Some v \<and>
                map_of (Credentials binding) ''secret'' = Some (VString v)))
   \<and> (getRedisHost topo = Inr redisHost \<and>
      (secrets = None \<or> lookup_secret secrets ''secret_pass'' \<noteq> None) \<and>
      redisProperty manifest ''secret'' = Inr (VString (''(('' @ path @ ''))'')) \<and>
      path \<noteq> [] \<and> (\<forall>c \<in> set path. notParen c) \<longrightarrow>
        (lookup_secret secrets path = None \<longrightarrow>
           CreateBinding b topo manifest rp secrets =
             (platformDiagnostic rp @
                [''secret '' @ [CHR 0x27] @ path @ [CHR 0x27] @
                 '' not present in manifest secrets passed to bind''],
              Inl (Err (''secret '' @ [CHR 0x27] @ path @ [CHR 0x27] @
                        '' not present in manifest secrets passed to bind''))))
      \<and> (\<forall>v password. lookup_secret secrets path = Some v \<and>
             redisProperty manifest ''password'' = Inr (VString password) \<longrightarrow>
           (\<exists>generatedSecret. snd (CreateBinding b topo manifest rp secrets) =
              Inr \<lparr>Credentials =
                    [(''host'', VString redisHost),
                     (''port'', VInt 6379),
                     (''generated_secret'', VString generatedSecret),
                     (''password'', VString password),
                     (''secret'', VString v)]\<rparr>)))"
proof (intro conjI impI allI; (elim conjE)?)
  assume ok: "snd (CreateBinding b topo manifest rp secrets) = Inr binding"
    and decl: "redisProperty manifest ''secret'' \<noteq> Inr VNil"
  from ok obtain redisHost generatedSecret props lg1 secretValue password where
    props: "redisPlanProperties manifest = Inr props"
    and sec: "secretFromConfigStore props secrets = (lg1, Inr secretValue)"
    and bind: "binding = \<lparr>Credentials =
                [(''host'', VString redisHost),
                 (''port'', VInt RedisServerPort),
                 (''generated_secret'', VString generatedSecret),
                 (''password'', VString password),
                 (''secret'', VString secretValue)]\<rparr>"
    by (rule CreateBinding_Inr)
  from props decl have "index_nil_map props (VString ''secret'') \<noteq> VNil"
    by (simp add: redisProperty_def)
  from secretFromConfigStore_Inr [OF sec this] props bind
  show "\<exists>path v. redisProperty manifest ''secret'' = Inr (VString (''(('' @ path @ ''))'')) \<and>
                path \<noteq> [] \<and> (\<forall>c \<in> set path. notParen c) \<and>
                lookup_secret secrets path = Some v \<and>
                map_of (Credentials binding) ''secret'' = Some (VString v)"
    by (auto simp: redisProperty_def)
next
  assume host: "getRedisHost topo = Inr redisHost"
    and pass: "secrets = None \<or> lookup_secret secrets ''secret_pass'' \<noteq> None"
    and ref: "redisProperty manifest ''secret'' = Inr (VString (''(('' @ path @ ''))''))"
    and path: "path \<noteq> []" "\<forall>c \<in> set path. notParen c"
    and absent: "lookup_secret secrets path = None"
  from path have m: "credhubRefSubmatch (''(('' @ path @ ''))'') = Some path"
    by (simp add: credhubRefSubmatch_Some_iff)
  from host pass ref absent m
  show "CreateBinding b topo manifest rp secrets =
             (platformDiagnostic rp @
                [''secret '' @ [CHR 0x27] @ path @ [CHR 0x27] @
                 '' not present in manifest secrets passed to bind''],
              Inl (Err (''secret '' @ [CHR 0x27] @ path @ [CHR 0x27] @
                        '' not present in manifest secrets passed to bind'')))"
    by (auto simp: CreateBinding_def redisProperty_def secretFromConfigStore_def
        secretNotPresent_def lookup_secret_def split: sum.splits option.splits)
next
  fix v password
  assume host: "getRedisHost topo = Inr redisHost"
    and pass: "secrets = None \<or> lookup_secret secrets ''secret_pass'' \<noteq> None"
    and ref: "redisProperty manifest ''secret'' = Inr (VString (''(('' @ path @ ''))''))"
    and path: "path \<noteq> []" "\<forall>c \<in> set path. notParen c"
    and present: "lookup_secret secrets path = Some v"
    and pw: "redisProperty manifest ''password'' = Inr (VString password)"
  from path have m: "credhubRefSubmatch (''(('' @ path @ ''))'') = Some path"
    by (simp add: credhubRefSubmatch_Some_iff)
  from host pass ref present pw m
  show "\<exists>generatedSecret. snd (CreateBinding b topo manifest rp secrets) =
              Inr \<lparr>Credentials =
                    [(''host'', VString redisHost),
                     (''port'', VInt 6379),
                     (''generated_secret'', VString generatedSecret),
                     (''password'', VString password),
                     (''secret'', VString v)]\<rparr>"
    by (auto simp: CreateBinding_def redisProperty_def secretFromConfigStore_def
        RedisServerPort_def lookup_secret_def split: sum.splits option.splits)
qed

theorem declared_secret_witness:
  "snd (CreateBinding ''binding-1'' example_topology
          (example_manifest ''2.5'' example_secret_properties) (example_params [])
          (Some [(''secret_pass'', ''generated''), (''my/path'', ''xyz'')])) =
     Inr \<lparr>Credentials =
           [(''host'', VString ''10.0.0.7''), (''port'', VInt 6379),
            (''generated_secret'', VString ''generated''),
            (''password'', VString ''hunter2''), (''secret'', VString ''xyz'')]\<rparr>
   \<and> CreateBinding ''binding-1'' example_topology
       (example_manifest ''2.5'' example_secret_properties) (example_params [])
       (Some [(''secret_pass'', ''generated'')]) =
     ([''Non Cloud Foundry platform (or pre OSBAPI 2.13) detected'',
       ''secret 'my/path' not present in manifest secrets passed to bind''],
      Inl (Err ''secret 'my/path' not present in manifest secrets passed to bind''))"
  using
    declared_secret
      [where b = "''binding-1''" and topo = example_topology
         and manifest = "example_manifest ''2.5'' example_secret_properties"
         and rp = "example_params []"
         and secrets = "Some [(''secret_pass'', ''generated''), (''my/path'', ''xyz'')]"
         and binding = "\<lparr>Credentials =
           [(''host'', VString ''10.0.0.7''), (''port'', VInt 6379),
            (''generated_secret'', VString ''generated''),
            (''password'', VString ''hunter2''), (''secret'', VString ''xyz'')]\<rparr>"
         and redisHost = "''10.0.0.7''" and path = "''my/path''"]
    declared_secret
      [where b = "''binding-1''" and topo = example_topology
         and manifest = "example_manifest ''2.5'' example_secret_properties"
         and rp = "example_params []"
         and secrets = "Some [(''secret_pass'', ''generated'')]"
         and binding = "\<lparr>Credentials = []\<rparr>"
         and redisHost = "''10.0.0.7''" and path = "''my/path''"]
  by (simp add: binder_defs example_defs example_secret_properties_def redisProperty_def)

theorem declared_secret_counterexample:
  "redisProperty (example_manifest ''2.5'' example_secret_properties) ''secret'' =
     Inr (VString ''((my/path))'')
   \<and> credhubRefSubmatch ''((my/path))'' = Some ''my/path''
   \<and> lookup_secret (Some []) ''my/path'' = None
   \<and> CreateBinding ''binding-1'' example_topology
       (example_manifest ''2.5'' example_secret_properties) (example_params []) (Some []) =
     ([''Non Cloud Foundry platform (or pre OSBAPI 2.13) detected'',
       ''manifest wasn't correctly interpolated: missing value for `secret_pass`''],
      Inl (Err ''manifest wasn't correctly interpolated: missing value for `secret_pass`''))"
  by (simp add: binder_defs example_defs example_secret_properties_def redisProperty_def)

subsection \<open>Absent and empty secrets\<close>

text \<open>
  Claim C10, as amended. \<open>CreateBinding\<close> tells an absent secrets bundle from a present one
  without \<open>secret_pass\<close>. For every call with no secrets bundle and no declared secret whose
  topology yields a host and whose manifest stores a string password, binding succeeds and
  the generated secret of the credentials is the empty string. For every call with a bundle
  that lacks \<open>secret_pass\<close>, binding fails with an error.
\<close>

theorem absent_and_empty_secrets:
  "(getRedisHost topo = Inr redisHost \<and>
    redisProperty manifest ''secret'' = Inr VNil \<and>
    redisProperty manifest ''password'' = Inr (VString password) \<longrightarrow>
      snd (CreateBinding b topo manifest rp None) =
        Inr \<lparr>Credentials =
              [(''host'', VString redisHost),
               (''port'', VInt 6379),
               (''generated_secret'', VString []),
               (''password'', VString password),
               (''secret'', VString [])]\<rparr>)
   \<and> (map_of secretsMap ''secret_pass'' = None \<longrightarrow>
      snd (CreateBinding b topo manifest rp (Some secretsMap)) =
        Inl (Err (case getRedisHost topo of
                    Inl e \<Rightarrow> []
                  | Inr redisHost \<Rightarrow>
                      ''manifest wasn't correctly interpolated: missing value for `secret_pass`'')))"
proof (intro conjI impI; (elim conjE)?)
  assume "getRedisHost topo = Inr redisHost"
    and "redisProperty manifest ''secret'' = Inr VNil"
    and "redisProperty manifest ''password'' = Inr (VString password)"
  then show "snd (CreateBinding b topo manifest rp None) =
        Inr \<lparr>Credentials =
              [(''host'', VString redisHost),
               (''port'', VInt 6379),
               (''generated_secret'', VString []),
               (''password'', VString password),
               (''secret'', VString [])]\<rparr>"
    by (auto simp: CreateBinding_def redisProperty_def secretFromConfigStore_def
        RedisServerPort_def split: sum.splits)
next
  assume "map_of secretsMap ''secret_pass'' = None"
  then show "snd (CreateBinding b topo manifest rp (Some secretsMap)) =
        Inl (Err (case getRedisHost topo of
                    Inl e \<Rightarrow> []
                  | Inr redisHost \<Rightarrow>
                      ''manifest wasn't correctly interpolated: missing value for `secret_pass`''))"
    using getRedisHost_failure [of topo]
    by (auto simp: CreateBinding_def secretPassMissing_def split: sum.splits failure.splits)
qed

theorem absent_and_empty_secrets_witness:
  "snd (CreateBinding ''binding-1'' example_topology
          (example_manifest ''2.5'' (example_properties ''hunter2'' 500)) (example_params []) None) =
     Inr \<lparr>Credentials =
           [(''host'', VString ''10.0.0.7''), (''port'', VInt 6379),
            (''generated_secret'', VString []),
            (''password'', VString ''hunter2''), (''secret'', VString [])]\<rparr>
   \<and> snd (CreateBinding ''binding-1'' example_topology
          (example_manifest ''2.5'' (example_properties ''hunter2'' 500)) (example_params [])
          (Some [])) =
     Inl (Err ''manifest wasn't correctly interpolated: missing value for `secret_pass`'')"
  using absent_and_empty_secrets
      [where topo = example_topology and redisHost = "''10.0.0.7''"
         and manifest = "example_manifest ''2.5'' (example_properties ''hunter2'' 500)"
         and password = "''hunter2''" and b = "''binding-1''" and rp = "example_params []"
         and secretsMap = "[]"]
  by (simp add: getRedisHost_def redisProperty_def redisPlanProperties_def index_map_def index_nil_map_def
      example_defs)

theorem absent_and_empty_secrets_counterexample:
  "redisProperty (example_manifest ''2.5'' (example_properties ''hunter2'' 500)) ''secret'' =
     Inr VNil
   \<and> CreateBinding ''binding-1'' []
       (example_manifest ''2.5'' (example_properties ''hunter2'' 500)) (example_params []) None =
     ([''Non Cloud Foundry platform (or pre OSBAPI 2.13) detected'',
       ''expected 1 instance group in the Redis deployment, got 0''],
      Inl (Err []))"
  by (simp add: binder_defs example_defs redisProperty_def decimal.simps digit_char_def)

end
